theory Spec2Isabelle
  imports Complex_Main
begin

section \<open>Python values used by the game\<close>

text \<open>
  The program is \<^verbatim>\<open>src/game.py\<close>, a turn-based role-playing game. Python's unbounded
  integers are \<^typ>\<open>int\<close>, its strings are \<^typ>\<open>string\<close>, and an exception that leaves a
  function is the \<open>Inl\<close> branch of a sum.
\<close>

datatype error =
    KeyError string
  | IndexError
  | ValueError
  | AttributeError

fun bind :: "error + 'a \<Rightarrow> ('a \<Rightarrow> error + 'b) \<Rightarrow> error + 'b" where
  "bind (Inl e) f = Inl e"
| "bind (Inr x) f = f x"

text \<open>\<^verbatim>\<open>str(n)\<close> for an integer, as the f-strings of the log messages use it.\<close>

fun str_nat :: "nat \<Rightarrow> string" where
  "str_nat n =
     (if n < 10 then [''0123456789'' ! n]
      else str_nat (n div 10) @ [''0123456789'' ! (n mod 10)])"

definition str :: "int \<Rightarrow> string" where
  "str i = (if i < 0 then CHR ''-'' # str_nat (nat (- i)) else str_nat (nat i))"

text \<open>
  A Python \<^verbatim>\<open>dict\<close> with string keys is an association list in insertion order:
  \<^verbatim>\<open>d[k]\<close> raises \<^verbatim>\<open>KeyError\<close> on a missing key, \<^verbatim>\<open>d[k] = v\<close> overwrites in place or
  appends.
\<close>

definition getitem :: "(string \<times> 'v) list \<Rightarrow> string \<Rightarrow> error + 'v" where
  "getitem d k = (case map_of d k of None \<Rightarrow> Inl (KeyError k) | Some v \<Rightarrow> Inr v)"

fun setitem :: "(string \<times> 'v) list \<Rightarrow> string \<Rightarrow> 'v \<Rightarrow> (string \<times> 'v) list" where
  "setitem [] k v = [(k, v)]"
| "setitem ((k', v') # d) k v =
     (if k' = k then (k, v) # d else (k', v') # setitem d k v)"

text \<open>\<^verbatim>\<open>next((x for x in xs if P(x)), None)\<close>: the first element that satisfies \<open>P\<close>.\<close>

definition next_or_None :: "('a \<Rightarrow> bool) \<Rightarrow> 'a list \<Rightarrow> 'a option" where
  "next_or_None P xs = List.find P xs"

section \<open>Items, equipment and spells\<close>

text \<open>
  The classes \<^verbatim>\<open>Item\<close>, \<^verbatim>\<open>Potion\<close>, \<^verbatim>\<open>Weapon\<close>, \<^verbatim>\<open>Armor\<close> and \<^verbatim>\<open>Spell\<close>. Their objects
  are never mutated after construction. None of the classes defines \<^verbatim>\<open>__eq__\<close>, so
  \<^verbatim>\<open>==\<close>, \<^verbatim>\<open>in\<close> and \<^verbatim>\<open>list.remove\<close> compare object identity; the model identifies an
  object with its field values, so two objects built from the same catalog entry are one
  value here. An \<^verbatim>\<open>isinstance\<close> test is a case distinction on \<open>item\<close>.
\<close>

datatype potion =
  Potion (potion_name: string) (potion_description: string) (effect: string) (amount: int)

datatype weapon =
  Weapon (weapon_name: string) (weapon_description: string) (attack_bonus: int)

datatype armor =
  Armor (armor_name: string) (armor_description: string) (defense_bonus: int)

datatype item =
    Item string string
  | PotionItem potion
  | WeaponItem weapon
  | ArmorItem armor

fun item_name :: "item \<Rightarrow> string" where
  "item_name (Item n d) = n"
| "item_name (PotionItem p) = potion_name p"
| "item_name (WeaponItem w) = weapon_name w"
| "item_name (ArmorItem a) = armor_name a"

fun item_description :: "item \<Rightarrow> string" where
  "item_description (Item n d) = d"
| "item_description (PotionItem p) = potion_description p"
| "item_description (WeaponItem w) = weapon_description w"
| "item_description (ArmorItem a) = armor_description a"

datatype spell =
  Spell (spell_name: string) (spell_description: string) (mana_cost: int) (damage: int)

section \<open>Quests\<close>

text \<open>A stage descriptor is a \<^verbatim>\<open>dict\<close> from strings to strings.\<close>

type_synonym stage = "(string \<times> string) list"

record quest =
  quest_name :: string
  quest_description :: string
  stages :: "stage list"
  current_stage :: int
  reward :: string
  completed :: bool

text \<open>\<^verbatim>\<open>Quest.__init__\<close>\<close>

definition Quest :: "string \<Rightarrow> string \<Rightarrow> stage list \<Rightarrow> string \<Rightarrow> quest" where
  "Quest name description stages' reward' =
     \<lparr>quest_name = name, quest_description = description, stages = stages',
      current_stage = 0, reward = reward', completed = False\<rparr>"

text \<open>
  \<^verbatim>\<open>self.stages[self.current_stage]\<close>: Python indexing, where a negative index counts
  from the end and an index out of range raises \<^verbatim>\<open>IndexError\<close>.
\<close>

definition list_index :: "'a list \<Rightarrow> int \<Rightarrow> error + 'a" where
  "list_index xs i =
     (if 0 \<le> i \<and> i < int (length xs) then Inr (xs ! nat i)
      else if i < 0 \<and> - int (length xs) \<le> i then Inr (xs ! nat (int (length xs) + i))
      else Inl IndexError)"

definition get_current_stage_info :: "quest \<Rightarrow> error + stage" where
  "get_current_stage_info self = list_index (stages self) (current_stage self)"

text \<open>\<^verbatim>\<open>Quest.advance_stage\<close>: the quest after the call, and the returned flag.\<close>

definition advance_stage :: "quest \<Rightarrow> quest \<times> bool" where
  "advance_stage self =
     (if current_stage self < int (length (stages self)) - 1
      then (self\<lparr>current_stage := current_stage self + 1\<rparr>, False)
      else (self\<lparr>completed := True\<rparr>, True))"

section \<open>Entities and the player\<close>

record entity =
  name :: string
  max_hp :: int
  hp :: int
  max_stamina :: int
  stamina :: int
  attack :: int
  defense :: int
  is_defending :: bool

definition is_alive :: "'a entity_scheme \<Rightarrow> bool" where
  "is_alive self = (hp self > 0)"

text \<open>\<^verbatim>\<open>Entity.take_damage\<close>: the entity after the call, and the returned damage.\<close>

definition take_damage :: "'a entity_scheme \<Rightarrow> int \<Rightarrow> 'a entity_scheme \<times> int" where
  "take_damage self dmg =
     (let dmg1 = (if is_defending self then max 0 (dmg div 2) else dmg);
          self1 = (if is_defending self then self\<lparr>is_defending := False\<rparr> else self);
          actual_damage = max 0 (dmg1 - defense self1);
          self2 = self1\<lparr>hp := hp self1 - actual_damage\<rparr>;
          self3 = (if hp self2 < 0 then self2\<lparr>hp := 0\<rparr> else self2)
      in (self3, actual_damage))"

text \<open>
  \<^verbatim>\<open>Player\<close>. The slots \<open>weapon\<close> and \<open>armor\<close> are assigned only by \<^verbatim>\<open>equip_item\<close>,
  behind its \<^verbatim>\<open>isinstance\<close> tests, and reset to \<^verbatim>\<open>None\<close> by the drop action, so they
  hold a \<^verbatim>\<open>Weapon\<close> and an \<^verbatim>\<open>Armor\<close> object or \<^verbatim>\<open>None\<close>. The list \<open>spells\<close> can hold
  \<^verbatim>\<open>None\<close>: \<^verbatim>\<open>from_dict\<close> appends what \<^verbatim>\<open>create_spell_from_name\<close> returns unfiltered.
  The dictionary \<open>quests\<close> keeps insertion order, which the progress check iterates in.
\<close>

record player = entity +
  xp :: int
  level :: int
  inventory :: "item list"
  weapon :: "weapon option"
  armor :: "armor option"
  location :: string
  quests :: "(string \<times> quest) list"
  max_mana :: int
  mana :: int
  spells :: "spell option list"

record enemy = entity +
  xp_reward :: int

text \<open>\<^verbatim>\<open>Player.__init__\<close> (with \<^verbatim>\<open>Entity.__init__\<close>) and \<^verbatim>\<open>Enemy.__init__\<close>\<close>

definition Player :: "string \<Rightarrow> int \<Rightarrow> int \<Rightarrow> int \<Rightarrow> int \<Rightarrow> player" where
  "Player name' hp' stamina' attack' defense' =
     \<lparr>name = name', max_hp = hp', hp = hp', max_stamina = stamina', stamina = stamina',
      attack = attack', defense = defense', is_defending = False,
      xp = 0, level = 1, inventory = [], weapon = None, armor = None,
      location = ''town'', quests = [], max_mana = 30, mana = 30, spells = []\<rparr>"

definition Enemy :: "string \<Rightarrow> int \<Rightarrow> int \<Rightarrow> int \<Rightarrow> int \<Rightarrow> int \<Rightarrow> enemy" where
  "Enemy name' hp' stamina' attack' defense' xp_reward' =
     \<lparr>name = name', max_hp = hp', hp = hp', max_stamina = stamina', stamina = stamina',
      attack = attack', defense = defense', is_defending = False, xp_reward = xp_reward'\<rparr>"

definition add_item :: "player \<Rightarrow> item \<Rightarrow> player" where
  "add_item self item = self\<lparr>inventory := inventory self @ [item]\<rparr>"

text \<open>\<^verbatim>\<open>list.remove\<close> deletes the first occurrence and raises \<^verbatim>\<open>ValueError\<close> without one.\<close>

definition remove_item :: "player \<Rightarrow> item \<Rightarrow> error + player" where
  "remove_item self item =
     (if item \<in> set (inventory self)
      then Inr (self\<lparr>inventory := remove1 item (inventory self)\<rparr>)
      else Inl ValueError)"

text \<open>\<^verbatim>\<open>Player.equip_item\<close>\<close>

fun equip_item :: "player \<Rightarrow> item \<Rightarrow> player" where
  "equip_item self (WeaponItem item) =
     (let self1 = (case weapon self of
                     Some w \<Rightarrow> self\<lparr>attack := attack self - attack_bonus w\<rparr>
                   | None \<Rightarrow> self);
          self2 = self1\<lparr>weapon := Some item\<rparr>
      in self2\<lparr>attack := attack self2 + attack_bonus item\<rparr>)"
| "equip_item self (ArmorItem item) =
     (let self1 = (case armor self of
                     Some a \<Rightarrow> self\<lparr>defense := defense self - defense_bonus a\<rparr>
                   | None \<Rightarrow> self);
          self2 = self1\<lparr>armor := Some item\<rparr>
      in self2\<lparr>defense := defense self2 + defense_bonus item\<rparr>)"
| "equip_item self (Item n d) = self"
| "equip_item self (PotionItem p) = self"

text \<open>
  \<^verbatim>\<open>Player.level_up\<close>. It ends with \<^verbatim>\<open>game.log(...)\<close>; the model returns the logged
  line with the player, and the caller appends it to the game's text area.
\<close>

definition level_up :: "player \<Rightarrow> player \<times> string list" where
  "level_up self =
     (let s1 = self\<lparr>level := level self + 1\<rparr>;
          s2 = s1\<lparr>xp := 0\<rparr>;
          s3 = s2\<lparr>max_hp := max_hp s2 + 20\<rparr>;
          s4 = s3\<lparr>hp := max_hp s3\<rparr>;
          s5 = s4\<lparr>max_stamina := max_stamina s4 + 10\<rparr>;
          s6 = s5\<lparr>stamina := max_stamina s5\<rparr>;
          s7 = s6\<lparr>max_mana := max_mana s6 + 10\<rparr>;
          s8 = s7\<lparr>mana := max_mana s7\<rparr>;
          s9 = s8\<lparr>attack := attack s8 + 5\<rparr>;
          s10 = s9\<lparr>defense := defense s9 + 2\<rparr>
      in (s10, [''*** You leveled up to level '' @ str (level s10) @ ''! ***'']))"

text \<open>\<^verbatim>\<open>Player.gain_xp\<close>\<close>

definition gain_xp :: "player \<Rightarrow> int \<Rightarrow> player \<times> string list" where
  "gain_xp self amount' =
     (let self1 = self\<lparr>xp := xp self + amount'\<rparr>
      in if xp self1 \<ge> level self1 * 100 then level_up self1 else (self1, []))"

section \<open>Game data\<close>

text \<open>
  The table \<^verbatim>\<open>items\<close>: each entry is the class with its keyword arguments, waiting for
  the name that \<^verbatim>\<open>create_item_from_name\<close> passes first.
\<close>

definition items :: "(string \<times> (string \<Rightarrow> item)) list" where
  "items =
    [(''Health Potion'', \<lambda>n. PotionItem (Potion n ''Restores 50 HP.'' ''heal'' 50)),
     (''Stamina Potion'', \<lambda>n. PotionItem (Potion n ''Restores 40 Stamina.'' ''stamina'' 40)),
     (''Iron Sword'', \<lambda>n. WeaponItem (Weapon n ''A basic sword.'' 10)),
     (''Greatsword'', \<lambda>n. WeaponItem (Weapon n ''A heavy two-handed sword.'' 18)),
     (''Leather Armor'', \<lambda>n. ArmorItem (Armor n ''Simple leather armor.'' 5)),
     (''Steel Armor'', \<lambda>n. ArmorItem (Armor n ''Sturdy steel plate armor.'' 12)),
     (''Amulet of the Forest'', \<lambda>n. Item n ''A quest item.'')]"

text \<open>The table \<^verbatim>\<open>spells\<close>: description, mana cost and damage of each spell.\<close>

definition spells_table :: "(string \<times> string \<times> int \<times> int) list" where
  "spells_table =
    [(''Fireball'', ''Hurls a ball of fire.'', 15, 30),
     (''Heal'', ''A minor healing spell.'', 20, - 40)]"

text \<open>The table \<^verbatim>\<open>enemies\<close>: hp, stamina, attack, defense and xp reward.\<close>

definition enemies :: "(string \<times> int \<times> int \<times> int \<times> int \<times> int) list" where
  "enemies =
    [(''Goblin'', 30, 20, 10, 5, 25),
     (''Wolf'', 40, 30, 15, 3, 35),
     (''Banshee'', 50, 60, 22, 6, 70),
     (''Troll'', 80, 50, 25, 10, 100),
     (''Giant Spider'', 60, 40, 20, 8, 80),
     (''Stone Golem'', 100, 30, 20, 18, 120),
     (''Cursed Knight'', 90, 70, 30, 15, 150),
     (''Dragon'', 250, 100, 40, 20, 500)]"

text \<open>
  The \<^verbatim>\<open>world\<close>. The keys \<^verbatim>\<open>enemies\<close>, \<^verbatim>\<open>npc\<close> and \<^verbatim>\<open>secret\<close> of a location are optional:
  \<open>None\<close> is a location without the key.
\<close>

record location_data =
  loc_name :: string
  loc_description :: string
  exits :: "(string \<times> string) list"
  loc_enemies :: "string list option"
  npc :: "string option"
  secret :: "string option"

definition world :: "(string \<times> location_data) list" where
  "world =
    [(''town'',
      \<lparr>loc_name = ''Eldoria Town'',
       loc_description = ''A peaceful town, a sanctuary from the dangers of the world.'',
       exits = [(''north'', ''forest''), (''west'', ''swamp'')],
       loc_enemies = None, npc = Some ''Old Man'', secret = None\<rparr>),
     (''forest'',
      \<lparr>loc_name = ''Whispering Forest'',
       loc_description = ''A dark and eerie forest. You find a small, moss-covered shrine.'',
       exits = [(''south'', ''town''), (''east'', ''cave'')],
       loc_enemies = Some [''Goblin'', ''Wolf''], npc = None,
       secret = Some ''Found an Amulet''\<rparr>),
     (''swamp'',
      \<lparr>loc_name = ''Haunted Swamp'',
       loc_description = ''A murky swamp filled with fog. The air is heavy and cold.'',
       exits = [(''east'', ''town''), (''north'', ''mountain_pass'')],
       loc_enemies = Some [''Banshee'', ''Giant Spider''], npc = Some ''Witch'',
       secret = None\<rparr>),
     (''cave'',
      \<lparr>loc_name = ''Shadowy Cave'',
       loc_description = ''A damp and cold cave. Something dangerous lurks here.'',
       exits = [(''west'', ''forest''), (''north'', ''boss_room'')],
       loc_enemies = Some [''Troll'', ''Stone Golem''], npc = None, secret = None\<rparr>),
     (''mountain_pass'',
      \<lparr>loc_name = ''Frozen Mountain Pass'',
       loc_description = ''A treacherous path through snowy mountains.'',
       exits = [(''south'', ''swamp''), (''east'', ''castle_ruins'')],
       loc_enemies = Some [''Wolf'', ''Stone Golem''], npc = None, secret = None\<rparr>),
     (''castle_ruins'',
      \<lparr>loc_name = ''Ruins of Castle Varden'',
       loc_description = ''The crumbling remains of a once-mighty fortress.'',
       exits = [(''west'', ''mountain_pass'')],
       loc_enemies = Some [''Cursed Knight'', ''Troll''], npc = None, secret = None\<rparr>),
     (''boss_room'',
      \<lparr>loc_name = ''Dragon'' @ [CHR 0x27] @ ''s Lair'',
       loc_description = ''A massive cavern with a fearsome dragon.'',
       exits = [],
       loc_enemies = Some [''Dragon''], npc = None, secret = None\<rparr>)]"

text \<open>
  The quest templates of the table \<^verbatim>\<open>npcs\<close>, each under the name of its character
  (the dialogue lines of the table are not used here).
\<close>

record quest_info =
  qi_name :: string
  qi_description :: string
  qi_stages :: "stage list"
  qi_reward :: string

definition old_man_quest :: quest_info where
  "old_man_quest =
     \<lparr>qi_name = ''Slay the Dragon'',
      qi_description = ''Help the Old Man and save the town.'',
      qi_stages =
        [[(''type'', ''find_item''), (''item'', ''Amulet of the Forest''),
          (''location'', ''forest''),
          (''target_description'', ''Find the Old Man'' @ [CHR 0x27] @ ''s amulet.'')],
         [(''type'', ''kill_enemy''), (''enemy'', ''Dragon''),
          (''location'', ''boss_room''),
          (''target_description'', ''Slay the Dragon.'')]],
      qi_reward = ''You saved the town! The Old Man gives you a Greatsword.''\<rparr>"

definition witch_quest :: quest_info where
  "witch_quest =
     \<lparr>qi_name = ''The Stolen Spellbook'',
      qi_description = ''Retrieve the Witch'' @ [CHR 0x27] @ ''s spellbook.'',
      qi_stages =
        [[(''type'', ''kill_enemy''), (''enemy'', ''Cursed Knight''),
          (''location'', ''castle_ruins''),
          (''target_description'', ''Defeat the Cursed Knight to get the spellbook.'')]],
      qi_reward = ''The Witch teaches you the Fireball spell.''\<rparr>"

definition npcs :: "(string \<times> quest_info) list" where
  "npcs = [(''Old Man'', old_man_quest), (''Witch'', witch_quest)]"


text \<open>\<^verbatim>\<open>create_item_from_name\<close> and \<^verbatim>\<open>create_spell_from_name\<close>: \<open>None\<close> for an unknown name.\<close>

definition create_item_from_name :: "string \<Rightarrow> item option" where
  "create_item_from_name n =
     (case map_of items n of Some item_class \<Rightarrow> Some (item_class n) | None \<Rightarrow> None)"

definition create_spell_from_name :: "string \<Rightarrow> spell option" where
  "create_spell_from_name n =
     (case map_of spells_table n of
        Some (d, c, dmg) \<Rightarrow> Some (Spell n d c dmg)
      | None \<Rightarrow> None)"

section \<open>Saving and loading\<close>

text \<open>
  The save document is the dictionary that \<^verbatim>\<open>to_dict\<close> builds and \<^verbatim>\<open>json\<close> writes and
  reads back. Each key of the document is a field that is \<open>None\<close> when the key is missing;
  the values have the types that \<^verbatim>\<open>to_dict\<close> writes (the values of \<^verbatim>\<open>weapon\<close> and
  \<^verbatim>\<open>armor\<close> are a name or \<^verbatim>\<open>null\<close>).
\<close>

record quest_doc =
  qd_name :: "string option"
  qd_description :: "string option"
  qd_stages :: "stage list option"
  qd_current_stage :: "int option"
  qd_reward :: "string option"
  qd_completed :: "bool option"

record player_doc =
  d_name :: "string option"
  d_hp :: "int option"
  d_max_hp :: "int option"
  d_stamina :: "int option"
  d_max_stamina :: "int option"
  d_mana :: "int option"
  d_max_mana :: "int option"
  d_attack :: "int option"
  d_defense :: "int option"
  d_xp :: "int option"
  d_level :: "int option"
  d_location :: "string option"
  d_inventory :: "string list option"
  d_weapon :: "string option option"
  d_armor :: "string option option"
  d_quests :: "(string \<times> quest_doc) list option"
  d_spells :: "string list option"

text \<open>\<^verbatim>\<open>data[k]\<close> on a document: \<^verbatim>\<open>KeyError\<close> when the key is missing.\<close>

fun doc_field :: "string \<Rightarrow> 'a option \<Rightarrow> error + 'a" where
  "doc_field k None = Inl (KeyError k)"
| "doc_field k (Some v) = Inr v"

text \<open>\<^verbatim>\<open>Quest.to_dict\<close> and \<^verbatim>\<open>Quest.from_dict\<close>\<close>

definition quest_to_dict :: "quest \<Rightarrow> quest_doc" where
  "quest_to_dict self =
     \<lparr>qd_name = Some (quest_name self), qd_description = Some (quest_description self),
      qd_stages = Some (stages self), qd_current_stage = Some (current_stage self),
      qd_reward = Some (reward self), qd_completed = Some (completed self)\<rparr>"

definition quest_from_dict :: "quest_doc \<Rightarrow> error + quest" where
  "quest_from_dict data =
     bind (doc_field ''name'' (qd_name data)) (\<lambda>n.
     bind (doc_field ''description'' (qd_description data)) (\<lambda>d.
     bind (doc_field ''stages'' (qd_stages data)) (\<lambda>st.
     bind (doc_field ''reward'' (qd_reward data)) (\<lambda>r.
     bind (doc_field ''current_stage'' (qd_current_stage data)) (\<lambda>cs.
     bind (doc_field ''completed'' (qd_completed data)) (\<lambda>c.
       Inr ((Quest n d st r)\<lparr>current_stage := cs, completed := c\<rparr>)))))))"

text \<open>
  \<^verbatim>\<open>[spell.name for spell in self.spells]\<close>: reading \<^verbatim>\<open>.name\<close> of a \<^verbatim>\<open>None\<close> entry raises
  \<^verbatim>\<open>AttributeError\<close>.
\<close>

fun spell_names :: "spell option list \<Rightarrow> error + string list" where
  "spell_names [] = Inr []"
| "spell_names (None # ss) = Inl AttributeError"
| "spell_names (Some s # ss) = bind (spell_names ss) (\<lambda>ns. Inr (spell_name s # ns))"

text \<open>\<^verbatim>\<open>Player.to_dict\<close>\<close>

definition to_dict :: "player \<Rightarrow> error + player_doc" where
  "to_dict self =
     bind (spell_names (spells self)) (\<lambda>ns.
       Inr \<lparr>d_name = Some (name self), d_hp = Some (hp self), d_max_hp = Some (max_hp self),
            d_stamina = Some (stamina self), d_max_stamina = Some (max_stamina self),
            d_mana = Some (mana self), d_max_mana = Some (max_mana self),
            d_attack = Some (attack self), d_defense = Some (defense self),
            d_xp = Some (xp self), d_level = Some (level self),
            d_location = Some (location self),
            d_inventory = Some (map item_name (inventory self)),
            d_weapon = Some (map_option weapon_name (weapon self)),
            d_armor = Some (map_option armor_name (armor self)),
            d_quests = Some (map (\<lambda>(k, v). (k, quest_to_dict v)) (quests self)),
            d_spells = Some ns\<rparr>)"

text \<open>
  The two re-equip blocks of \<^verbatim>\<open>from_dict\<close>. The stored value is tested for truth
  (\<^verbatim>\<open>None\<close> and the empty string are false), then the first inventory item of that name
  is looked up and, when there is one, equipped.
\<close>

definition reequip :: "player \<Rightarrow> string option \<Rightarrow> player" where
  "reequip p stored =
     (case stored of
        None \<Rightarrow> p
      | Some n \<Rightarrow>
          if n = [] then p
          else (case next_or_None (\<lambda>item. item_name item = n) (inventory p) of
                  None \<Rightarrow> p
                | Some to_equip \<Rightarrow> equip_item p to_equip))"

text \<open>The loop over \<^verbatim>\<open>data['quests'].items()\<close> of \<^verbatim>\<open>from_dict\<close>.\<close>

fun load_quests :: "player \<Rightarrow> (string \<times> quest_doc) list \<Rightarrow> error + player" where
  "load_quests p [] = Inr p"
| "load_quests p ((quest_name', quest_data) # rest) =
     bind (quest_from_dict quest_data) (\<lambda>q.
       load_quests (p\<lparr>quests := setitem (quests p) quest_name' q\<rparr>) rest)"

text \<open>\<^verbatim>\<open>Player.from_dict\<close>, reading the keys in the order of the source.\<close>

definition from_dict :: "player_doc \<Rightarrow> error + player" where
  "from_dict data =
     bind (doc_field ''name'' (d_name data)) (\<lambda>n.
     bind (doc_field ''max_hp'' (d_max_hp data)) (\<lambda>mhp.
     bind (doc_field ''max_stamina'' (d_max_stamina data)) (\<lambda>mst.
     bind (doc_field ''hp'' (d_hp data)) (\<lambda>h.
     bind (doc_field ''stamina'' (d_stamina data)) (\<lambda>st.
     bind (doc_field ''mana'' (d_mana data)) (\<lambda>m.
     bind (doc_field ''max_mana'' (d_max_mana data)) (\<lambda>mm.
     bind (doc_field ''xp'' (d_xp data)) (\<lambda>x.
     bind (doc_field ''level'' (d_level data)) (\<lambda>l.
     bind (doc_field ''location'' (d_location data)) (\<lambda>loc.
       let p0 = (Player n mhp mst 0 0)
                  \<lparr>hp := h, stamina := st, mana := m, max_mana := mm, xp := x,
                   level := l, location := loc\<rparr>;
           p1 = p0\<lparr>attack := 10 + level p0 * 5\<rparr>;
           p2 = p1\<lparr>defense := 3 + level p1 * 2\<rparr>
       in
     bind (doc_field ''inventory'' (d_inventory data)) (\<lambda>inv.
       let inventory_items = map create_item_from_name inv;
           p3 = p2\<lparr>inventory := List.map_filter (\<lambda>item. item) inventory_items\<rparr>
       in
     bind (doc_field ''weapon'' (d_weapon data)) (\<lambda>w.
       let p4 = reequip p3 w in
     bind (doc_field ''armor'' (d_armor data)) (\<lambda>a.
       let p5 = reequip p4 a in
     bind (doc_field ''spells'' (d_spells data)) (\<lambda>sp.
       let p6 = p5\<lparr>spells := spells p5 @ map create_spell_from_name sp\<rparr> in
     bind (doc_field ''quests'' (d_quests data)) (\<lambda>qs.
       load_quests p6 qs)))))))))))))))"

section \<open>The game\<close>

text \<open>
  \<^verbatim>\<open>Game\<close> is the window of the application. Of its widgets the model keeps what the
  handlers below read or change: the lines written to the text area by \<^verbatim>\<open>log\<close> (here \<open>log_line\<close>), the
  buttons of the button frame (each by the command it is bound to), the selection
  windows opened in combat, the message boxes shown, and whether the window was destroyed.
  The statistics label of \<^verbatim>\<open>update_stats\<close> and the inventory window are display only and
  are left out.
\<close>

datatype command =
    NewGame
  | LoadGame
  | MovePlayer string
  | TalkToNpc string
  | SearchArea
  | OpenInventory
  | SaveGame
  | PerformAction string

datatype window =
    SpellWindow "spell list"
  | ItemWindow "potion list"

record game =
  player :: "player option"
  current_enemy :: "enemy option"
  text_area :: "string list"
  buttons :: "command list"
  windows :: "window list"
  messageboxes :: "(string \<times> string) list"
  destroyed :: bool

text \<open>
  The random numbers one handler call draws: the result of \<^verbatim>\<open>random.random()\<close> in
  \<^verbatim>\<open>flee\<close>, the one in \<^verbatim>\<open>show_location\<close> (a handler reaches \<^verbatim>\<open>show_location\<close> at most
  once), and the number from which \<^verbatim>\<open>random.choice\<close> takes its index. The floats are
  taken as the real numbers they stand for.
\<close>

record draws =
  flee_roll :: real
  encounter_roll :: real
  enemy_pick :: nat

definition choice :: "nat \<Rightarrow> 'a list \<Rightarrow> error + 'a" where
  "choice r xs = (if xs = [] then Inl IndexError else Inr (xs ! (r mod length xs)))"

text \<open>Reading an attribute of \<^verbatim>\<open>self.player\<close> or \<^verbatim>\<open>self.current_enemy\<close> when it is \<^verbatim>\<open>None\<close>.\<close>

definition the_player :: "game \<Rightarrow> error + player" where
  "the_player g = (case player g of None \<Rightarrow> Inl AttributeError | Some p \<Rightarrow> Inr p)"

definition the_enemy :: "game \<Rightarrow> error + enemy" where
  "the_enemy g = (case current_enemy g of None \<Rightarrow> Inl AttributeError | Some e \<Rightarrow> Inr e)"

definition log_line :: "game \<Rightarrow> string \<Rightarrow> game" where
  "log_line g message = g\<lparr>text_area := text_area g @ [message]\<rparr>"

text \<open>\<^verbatim>\<open>Game.__init__\<close> with \<^verbatim>\<open>show_start_menu\<close>; the parameter is \<^verbatim>\<open>os.path.exists(SAVE_FILE)\<close>.\<close>

definition Game :: "bool \<Rightarrow> game" where
  "Game save_exists =
     log_line
       \<lparr>player = None, current_enemy = None, text_area = [],
        buttons = NewGame # (if save_exists then [LoadGame] else []),
        windows = [], messageboxes = [], destroyed = False\<rparr>
       ''Welcome to the Souls-Like RPG!''"

definition create_location_buttons :: "game \<Rightarrow> error + game" where
  "create_location_buttons g =
     bind (the_player g) (\<lambda>p.
     bind (getitem world (location p)) (\<lambda>ld.
       Inr (g\<lparr>buttons :=
                 map (\<lambda>(direction, destination). MovePlayer destination) (exits ld)
                 @ (case npc ld of Some n \<Rightarrow> [TalkToNpc n] | None \<Rightarrow> [])
                 @ (case secret ld of Some s \<Rightarrow> [SearchArea] | None \<Rightarrow> [])
                 @ [OpenInventory, SaveGame]\<rparr>)))"

definition create_combat_buttons :: "game \<Rightarrow> game" where
  "create_combat_buttons g =
     g\<lparr>buttons := map PerformAction
                     [''Attack'', ''Defend'', ''Magic'', ''Use Item'', ''Flee'']\<rparr>"

definition start_combat :: "game \<Rightarrow> string \<Rightarrow> error + game" where
  "start_combat g enemy_name =
     bind (getitem enemies enemy_name) (\<lambda>(h, st, a, d, x).
       let g1 = g\<lparr>current_enemy := Some (Enemy enemy_name h st a d x)\<rparr>;
           g2 = log_line g1 (CHR 0x0A # ''A wild '' @ enemy_name @ '' appears!'')
       in Inr (create_combat_buttons g2))"

definition show_location :: "game \<Rightarrow> draws \<Rightarrow> error + game" where
  "show_location g d =
     bind (the_player g) (\<lambda>p.
     bind (getitem world (location p)) (\<lambda>ld.
       let g1 = log_line g (CHR 0x0A # ''--- '' @ loc_name ld @ '' ---'');
           g2 = log_line g1 (loc_description ld)
       in
     bind (create_location_buttons g2) (\<lambda>g3.
       case loc_enemies ld of
         None \<Rightarrow> Inr g3
       | Some roster \<Rightarrow>
           if encounter_roll d < 6 / 10
           then bind (choice (enemy_pick d) roster) (start_combat g3)
           else Inr g3)))"

definition game_over :: "game \<Rightarrow> game" where
  "game_over g =
     (let g1 = log_line g (CHR 0x0A # ''You have been defeated. Game Over.'');
          g2 = g1\<lparr>messageboxes :=
                    messageboxes g1 @ [(''Game Over'', ''You have been defeated.'')]\<rparr>
      in g2\<lparr>destroyed := True\<rparr>)"

definition enemy_turn :: "game \<Rightarrow> error + game" where
  "enemy_turn g =
     bind (the_player g) (\<lambda>p.
     bind (the_enemy g) (\<lambda>e.
       let (p', damage_done) = take_damage p (attack e);
           g1 = g\<lparr>player := Some p'\<rparr>;
           g2 = log_line g1 (''The '' @ name e @ '' attacks you for '' @ str damage_done
                        @ '' damage.'')
       in if \<not> is_alive p' then Inr (game_over g2) else Inr g2))"

text \<open>
  \<^verbatim>\<open>complete_quest\<close>. The two names are in the tables; for a name that is not,
  \<^verbatim>\<open>add_item\<close> would put \<^verbatim>\<open>None\<close> into the inventory, which fails at its first use.
\<close>

definition complete_quest :: "game \<Rightarrow> quest \<Rightarrow> error + game" where
  "complete_quest g q =
     (let g1 = log_line g (''*** Quest Completed: '' @ quest_name q @ '' ***'');
          g2 = log_line g1 (reward q)
      in if quest_name q = ''Slay the Dragon'' then
           bind (the_player g2) (\<lambda>p.
             case create_item_from_name ''Greatsword'' of
               None \<Rightarrow> Inl AttributeError
             | Some item \<Rightarrow> Inr (g2\<lparr>player := Some (add_item p item)\<rparr>))
         else if quest_name q = ''The Stolen Spellbook'' then
           bind (the_player g2) (\<lambda>p.
             Inr (g2\<lparr>player :=
                       Some (p\<lparr>spells := spells p @ [create_spell_from_name ''Fireball'']\<rparr>)\<rparr>))
         else Inr g2)"

text \<open>
  The test of \<^verbatim>\<open>check_quest_progress\<close> on one stage. \<^verbatim>\<open>stage['enemy']\<close> is read only for
  a \<^verbatim>\<open>kill_enemy\<close> stage, and \<^verbatim>\<open>stage['item']\<close> only inside \<^verbatim>\<open>any\<close>, so not at all when
  the inventory is empty.
\<close>

definition stage_progress :: "player \<Rightarrow> string option \<Rightarrow> stage \<Rightarrow> error + bool" where
  "stage_progress p defeated_enemy stage =
     bind (getitem stage ''type'') (\<lambda>ty.
     bind (if ty = ''kill_enemy''
           then bind (getitem stage ''enemy'') (\<lambda>en. Inr (Some en = defeated_enemy))
           else Inr False) (\<lambda>killed.
       if killed then Inr True
       else if ty = ''find_item'' then
         (if inventory p = [] then Inr False
          else bind (getitem stage ''item'') (\<lambda>it.
                 Inr (list_ex (\<lambda>item. item_name item = it) (inventory p))))
       else Inr False))"

text \<open>
  The loop of \<^verbatim>\<open>check_quest_progress\<close> over \<^verbatim>\<open>self.player.quests.items()\<close>. A step
  changes only its own quest object (written back under its key, which a dictionary has
  once) and, in \<^verbatim>\<open>complete_quest\<close>, the inventory and the spells.
\<close>

fun check_quests :: "game \<Rightarrow> string option \<Rightarrow> (string \<times> quest) list \<Rightarrow> error + game" where
  "check_quests g defeated_enemy [] = Inr g"
| "check_quests g defeated_enemy ((nm, q) # rest) =
     (if completed q then check_quests g defeated_enemy rest
      else
        bind (get_current_stage_info q) (\<lambda>stage.
        bind (the_player g) (\<lambda>p.
        bind (stage_progress p defeated_enemy stage) (\<lambda>progress.
          if progress then
            (let g1 = log_line g (''Quest Progress: '' @ [CHR 0x27] @ quest_name q @ [CHR 0x27]);
                 (q', done) = advance_stage q;
                 g2 = g1\<lparr>player := Some (p\<lparr>quests := setitem (quests p) nm q'\<rparr>)\<rparr>
             in if done
                then bind (complete_quest g2 q') (\<lambda>g3. check_quests g3 defeated_enemy rest)
                else check_quests g2 defeated_enemy rest)
          else check_quests g defeated_enemy rest))))"

definition check_quest_progress :: "game \<Rightarrow> string option \<Rightarrow> error + game" where
  "check_quest_progress g defeated_enemy =
     bind (the_player g) (\<lambda>p. check_quests g defeated_enemy (quests p))"


definition win_combat :: "game \<Rightarrow> draws \<Rightarrow> error + game" where
  "win_combat g d =
     bind (the_enemy g) (\<lambda>e.
     bind (the_player g) (\<lambda>p.
       let g1 = log_line g (''You defeated the '' @ name e @ ''!'');
           (p', lines) = gain_xp p (xp_reward e);
           g2 = g1\<lparr>player := Some p', text_area := text_area g1 @ lines\<rparr>
       in
     bind (check_quest_progress g2 (Some (name e))) (\<lambda>g3.
       show_location (g3\<lparr>current_enemy := None\<rparr>) d)))"

definition player_attack :: "game \<Rightarrow> draws \<Rightarrow> error + game" where
  "player_attack g d =
     bind (the_enemy g) (\<lambda>e.
     bind (the_player g) (\<lambda>p.
       let (e', damage_done) = take_damage e (attack p);
           g1 = g\<lparr>current_enemy := Some e'\<rparr>;
           g2 = log_line g1 (''You attack the '' @ name e' @ '' for '' @ str damage_done
                        @ '' damage.'')
       in if \<not> is_alive e' then win_combat g2 d else Inr g2))"

definition player_defend :: "game \<Rightarrow> error + game" where
  "player_defend g =
     bind (the_player g) (\<lambda>p.
       Inr (log_line (g\<lparr>player := Some (p\<lparr>is_defending := True\<rparr>)\<rparr>)
              ''You brace for the next attack, reducing incoming damage.''))"

text \<open>
  \<^verbatim>\<open>show_spell_selection\<close>: the loop makes one button per spell and reads \<^verbatim>\<open>spell.name\<close>,
  which raises for a \<^verbatim>\<open>None\<close> entry. The result is the game and the returned flag.
\<close>

fun spell_buttons :: "spell option list \<Rightarrow> error + spell list" where
  "spell_buttons [] = Inr []"
| "spell_buttons (None # ss) = Inl AttributeError"
| "spell_buttons (Some s # ss) = bind (spell_buttons ss) (\<lambda>bs. Inr (s # bs))"

definition show_spell_selection :: "game \<Rightarrow> error + game \<times> bool" where
  "show_spell_selection g =
     bind (the_player g) (\<lambda>p.
     bind (spell_buttons (spells p)) (\<lambda>bs.
       Inr (g\<lparr>windows := windows g @ [SpellWindow bs]\<rparr>, False)))"

definition show_item_selection :: "game \<Rightarrow> error + game \<times> bool" where
  "show_item_selection g =
     bind (the_player g) (\<lambda>p.
       let potions = List.map_filter
                       (\<lambda>item. case item of PotionItem q \<Rightarrow> Some q | _ \<Rightarrow> None)
                       (inventory p)
       in if potions = []
          then Inr (log_line g ''You have no potions to use.'', False)
          else Inr (g\<lparr>windows := windows g @ [ItemWindow potions]\<rparr>, False))"

definition flee :: "game \<Rightarrow> draws \<Rightarrow> error + game" where
  "flee g d =
     (if flee_roll d < 5 / 10
      then (let g1 = log_line g ''You successfully fled the battle.'';
                g2 = g1\<lparr>current_enemy := None\<rparr>
            in show_location g2 d)
      else enemy_turn (log_line g ''You failed to flee!''))"

definition perform_action :: "game \<Rightarrow> string \<Rightarrow> draws \<Rightarrow> error + game" where
  "perform_action g action d =
     (case current_enemy g of
        None \<Rightarrow> Inr g
      | Some e \<Rightarrow>
          if \<not> is_alive e then Inr g
          else
            bind (if action = ''Attack'' then bind (player_attack g d) (\<lambda>g'. Inr (g', True))
                  else if action = ''Defend'' then bind (player_defend g) (\<lambda>g'. Inr (g', True))
                  else if action = ''Magic'' then show_spell_selection g
                  else if action = ''Use Item'' then show_item_selection g
                  else if action = ''Flee'' then bind (flee g d) (\<lambda>g'. Inr (g', False))
                  else Inr (g, True))
              (\<lambda>(g1, player_turn_ended).
                 if player_turn_ended
                    \<and> (case current_enemy g1 of None \<Rightarrow> False | Some e1 \<Rightarrow> is_alive e1)
                 then enemy_turn g1
                 else Inr g1))"

text \<open>
  \<^verbatim>\<open>new_game\<close>. \<^verbatim>\<open>equip_item(None)\<close> would pass both \<^verbatim>\<open>isinstance\<close> tests by and do
  nothing; \<^verbatim>\<open>add_item(None)\<close> is the case described at \<open>complete_quest\<close>.
\<close>

definition equip_created :: "player \<Rightarrow> item option \<Rightarrow> player" where
  "equip_created p created = (case created of None \<Rightarrow> p | Some item \<Rightarrow> equip_item p item)"

definition new_game :: "game \<Rightarrow> draws \<Rightarrow> error + game" where
  "new_game g d =
     (let p0 = Player ''Hero'' 100 50 15 5 in
      case create_item_from_name ''Health Potion'' of
        None \<Rightarrow> Inl AttributeError
      | Some potion \<Rightarrow>
          let p1 = add_item p0 potion;
              p2 = equip_created p1 (create_item_from_name ''Iron Sword'');
              p3 = equip_created p2 (create_item_from_name ''Leather Armor'');
              p4 = p3\<lparr>spells := spells p3 @ [create_spell_from_name ''Heal'']\<rparr>;
              g1 = log_line (g\<lparr>player := Some p4\<rparr>) (CHR 0x0A # ''A new journey begins...'')
          in show_location g1 d)"

text \<open>
  \<^verbatim>\<open>save_game\<close> and \<^verbatim>\<open>load_game\<close>. The save file is a parameter: the document it holds,
  or \<open>None\<close> when \<^verbatim>\<open>os.path.exists\<close> is false. \<^verbatim>\<open>save_game\<close> returns the game and the
  document it writes, if any.
\<close>

definition save_game :: "game \<Rightarrow> error + game \<times> player_doc option" where
  "save_game g =
     (case player g of
        None \<Rightarrow> Inr (g, None)
      | Some p \<Rightarrow>
          bind (to_dict p) (\<lambda>doc.
            let g1 = log_line g (CHR 0x0A # ''Game saved.'')
            in Inr (g1\<lparr>messageboxes :=
                          messageboxes g1
                          @ [(''Save Game'', ''Your progress has been saved.'')]\<rparr>,
                    Some doc)))"

definition load_game :: "game \<Rightarrow> player_doc option \<Rightarrow> draws \<Rightarrow> error + game" where
  "load_game g save_file d =
     (case save_file of
        Some player_data \<Rightarrow>
          bind (from_dict player_data) (\<lambda>p.
            let g1 = g\<lparr>player := Some p\<rparr>;
                g2 = log_line g1 (CHR 0x0A # ''Game loaded. Welcome back.'')
            in show_location g2 d)
      | None \<Rightarrow> Inr (log_line g ''No save file found.''))"

text \<open>
  \<^verbatim>\<open>drop_action\<close> of the inventory window, for the selected inventory item: the slot
  cleanup, then \<^verbatim>\<open>remove_item\<close>.
\<close>

definition unequip_if_equipped :: "player \<Rightarrow> item \<Rightarrow> player" where
  "unequip_if_equipped p item =
     (let p1 = (case item of
                  WeaponItem w \<Rightarrow>
                    if weapon p = Some w
                    then (p\<lparr>attack := attack p - attack_bonus w\<rparr>)\<lparr>weapon := None\<rparr>
                    else p
                | _ \<Rightarrow> p)
      in case item of
           ArmorItem a \<Rightarrow>
             if armor p1 = Some a
             then (p1\<lparr>defense := defense p1 - defense_bonus a\<rparr>)\<lparr>armor := None\<rparr>
             else p1
         | _ \<Rightarrow> p1)"

definition drop_action :: "game \<Rightarrow> item \<Rightarrow> error + game" where
  "drop_action g item =
     bind (the_player g) (\<lambda>p.
     bind (remove_item (unequip_if_equipped p item) item) (\<lambda>p'.
       Inr (log_line (g\<lparr>player := Some p'\<rparr>) (''You dropped the '' @ item_name item @ ''.''))))"

section \<open>Notions of the specification\<close>

text \<open>The player and the enemy of the game a handler returns, if it returns one.\<close>

definition player_of :: "error + game \<Rightarrow> player option" where
  "player_of r = (case r of Inl e \<Rightarrow> None | Inr g \<Rightarrow> player g)"

definition enemy_of :: "error + game \<Rightarrow> enemy option" where
  "enemy_of r = (case r of Inl e \<Rightarrow> None | Inr g \<Rightarrow> current_enemy g)"

text \<open>
  The base attack and defense the specification speaks of: the value without the bonus
  of what is equipped.
\<close>

definition base_attack :: "player \<Rightarrow> int" where
  "base_attack p = attack p - (case weapon p of None \<Rightarrow> 0 | Some w \<Rightarrow> attack_bonus w)"

definition base_defense :: "player \<Rightarrow> int" where
  "base_defense p = defense p - (case armor p of None \<Rightarrow> 0 | Some a \<Rightarrow> defense_bonus a)"

text \<open>Saving a player and loading the document again.\<close>

definition round_trip :: "player \<Rightarrow> error + player" where
  "round_trip p = bind (to_dict p) from_dict"






text \<open>The first key, in the order \<^verbatim>\<open>from_dict\<close> reads them, that a document lacks.\<close>

definition first_missing :: "player_doc \<Rightarrow> string option" where
  "first_missing data =
     (if d_name data = None then Some ''name''
      else if d_max_hp data = None then Some ''max_hp''
      else if d_max_stamina data = None then Some ''max_stamina''
      else if d_hp data = None then Some ''hp''
      else if d_stamina data = None then Some ''stamina''
      else if d_mana data = None then Some ''mana''
      else if d_max_mana data = None then Some ''max_mana''
      else if d_xp data = None then Some ''xp''
      else if d_level data = None then Some ''level''
      else if d_location data = None then Some ''location''
      else if d_inventory data = None then Some ''inventory''
      else if d_weapon data = None then Some ''weapon''
      else if d_armor data = None then Some ''armor''
      else if d_spells data = None then Some ''spells''
      else if d_quests data = None then Some ''quests''
      else None)"

text \<open>Two fixed draws: one where every roll is below its threshold, one where none is.\<close>

definition low_rolls :: draws where
  "low_rolls = \<lparr>flee_roll = 1 / 4, encounter_roll = 1 / 4, enemy_pick = 0\<rparr>"

definition high_rolls :: draws where
  "high_rolls = \<lparr>flee_roll = 3 / 4, encounter_roll = 3 / 4, enemy_pick = 1\<rparr>"


text \<open>A save document that lacks the key \<^verbatim>\<open>name\<close> and holds every other key.\<close>

definition nameless_doc :: player_doc where
  "nameless_doc =
     \<lparr>d_name = None, d_hp = Some 100, d_max_hp = Some 100, d_stamina = Some 50,
      d_max_stamina = Some 50, d_mana = Some 30, d_max_mana = Some 30,
      d_attack = Some 25, d_defense = Some 10, d_xp = Some 0, d_level = Some 1,
      d_location = Some ''town'', d_inventory = Some [''Health Potion''],
      d_weapon = Some (Some ''Iron Sword''), d_armor = Some (Some ''Leather Armor''),
      d_quests = Some [], d_spells = Some [''Heal'']\<rparr>"

text \<open>
  A game in the middle of a fight: the hero, without spells and with an empty inventory,
  faces a wounded Wolf in the forest.
\<close>

definition forest_duel :: game where
  "forest_duel =
     create_combat_buttons
       ((Game False)
          \<lparr>player := Some ((Player ''Hero'' 100 50 15 5)\<lparr>location := ''forest''\<rparr>),
           current_enemy := Some ((Enemy ''Wolf'' 40 30 15 3 35)\<lparr>hp := 12\<rparr>)\<rparr>)"





section \<open>Facts shared by the proofs\<close>

text \<open>The player that \<^verbatim>\<open>new_game\<close> installs, whatever the game was before and whatever is drawn.\<close>

lemma new_game_player:
  "player_of (new_game g d) =
     Some \<lparr>name = ''Hero'', max_hp = 100, hp = 100, max_stamina = 50, stamina = 50,
           attack = 25, defense = 10, is_defending = False, xp = 0, level = 1,
           inventory = [PotionItem (Potion ''Health Potion'' ''Restores 50 HP.'' ''heal'' 50)],
           weapon = Some (Weapon ''Iron Sword'' ''A basic sword.'' 10),
           armor = Some (Armor ''Leather Armor'' ''Simple leather armor.'' 5),
           location = ''town'', quests = [], max_mana = 30, mana = 30,
           spells = [Some (Spell ''Heal'' ''A minor healing spell.'' 20 (- 40))]\<rparr>"
  by (simp add: new_game_def create_item_from_name_def items_def create_spell_from_name_def
      spells_table_def show_location_def the_player_def getitem_def world_def
      create_location_buttons_def log_line_def Player_def add_item_def equip_created_def
      player_of_def Let_def)

















text \<open>
  Every roster of the world names known enemies, so the location view always returns: with
  the player unchanged, and with a fresh enemy exactly when the location has a roster and
  the encounter roll is below 0.6.
\<close>

lemma world_rosters:
  "map_of world l = Some ld \<Longrightarrow> loc_enemies ld = Some roster \<Longrightarrow>
     roster \<noteq> [] \<and> (\<forall>n\<in>set roster. map_of enemies n \<noteq> None)"
  by (auto simp: world_def enemies_def split: if_splits)

lemma start_combat_known:
  assumes "map_of enemies n = Some (h, st, a, df, x)"
  shows "start_combat g n =
           Inr (g\<lparr>current_enemy := Some (Enemy n h st a df x),
                  text_area := text_area g @ [CHR 0x0A # ''A wild '' @ n @ '' appears!''],
                  buttons := map PerformAction
                     [''Attack'', ''Defend'', ''Magic'', ''Use Item'', ''Flee'']\<rparr>)"
  using assms
  by (simp add: start_combat_def getitem_def log_line_def create_combat_buttons_def Let_def)

lemma show_location_result:
  assumes "player g = Some p" and "map_of world (location p) = Some ld"
  shows "\<exists>g'. show_location g d = Inr g'
           \<and> player g' = Some p \<and> destroyed g' = destroyed g
           \<and> (current_enemy g' = current_enemy g
               \<or> (\<exists>roster. loc_enemies ld = Some roster \<and> encounter_roll d < 6 / 10))
           \<and> ((\<exists>roster. loc_enemies ld = Some roster \<and> encounter_roll d < 6 / 10)
                \<longrightarrow> (\<exists>e'. current_enemy g' = Some e' \<and> hp e' = max_hp e'
                          \<and> text_area g' = text_area g
                               @ [CHR 0x0A # ''--- '' @ loc_name ld @ '' ---'', loc_description ld,
                                  CHR 0x0A # ''A wild '' @ name e' @ '' appears!'']))
           \<and> (\<not> (\<exists>roster. loc_enemies ld = Some roster \<and> encounter_roll d < 6 / 10)
                \<longrightarrow> current_enemy g' = current_enemy g
                    \<and> text_area g' = text_area g
                         @ [CHR 0x0A # ''--- '' @ loc_name ld @ '' ---'', loc_description ld])"
proof (cases "loc_enemies ld")
  case None
  with assms show ?thesis
    by (simp add: show_location_def the_player_def getitem_def create_location_buttons_def
        log_line_def Let_def)
next
  case (Some roster)
  show ?thesis
  proof (cases "encounter_roll d < 6 / 10")
    case False
    with assms Some show ?thesis
      by (simp add: show_location_def the_player_def getitem_def create_location_buttons_def
          log_line_def Let_def)
  next
    case True
    from world_rosters [OF assms(2) Some]
    have ne: "roster \<noteq> []" and known: "\<forall>n\<in>set roster. map_of enemies n \<noteq> None" by auto
    let ?n = "roster ! (enemy_pick d mod length roster)"
    from ne have "?n \<in> set roster" by simp
    with known obtain h st a df x where t: "map_of enemies ?n = Some (h, st, a, df, x)"
      by (metis not_None_eq prod_cases5)
    from assms Some True ne show ?thesis
      by (simp add: show_location_def the_player_def getitem_def create_location_buttons_def
          log_line_def choice_def start_combat_known [OF t] Enemy_def Let_def)
  qed
qed


lemma no_potions:
  "(\<forall>q. PotionItem q \<notin> set xs) \<Longrightarrow>
     List.map_filter (\<lambda>item. case item of PotionItem q \<Rightarrow> Some q | _ \<Rightarrow> None) xs = []"
  by (induction xs) (auto split: item.splits)

section \<open>Saving and loading a player\<close>

text \<open>
  Claim C1, at the player a new game starts with. \<^verbatim>\<open>new_game\<close> equips the Iron Sword and
  the Leather Armor without adding them to the inventory, \<^verbatim>\<open>to_dict\<close> stores their names,
  and \<^verbatim>\<open>from_dict\<close> looks the names up in the rebuilt inventory only. So saving and loading
  this player returns a player with the same stored scalar fields and inventory names but
  with no weapon and no armor, attack 15 instead of 25 and defense 5 instead of 10: the round trip does not keep
  the effective attack and defense.
\<close>

theorem round_trip_loses_starting_equipment:
  "\<exists>p p'. player_of (new_game g d) = Some p \<and> round_trip p = Inr p'
     \<and> attack p = 25 \<and> attack p' = 15 \<and> defense p = 10 \<and> defense p' = 5
     \<and> weapon p = Some (Weapon ''Iron Sword'' ''A basic sword.'' 10) \<and> weapon p' = None
     \<and> armor p = Some (Armor ''Leather Armor'' ''Simple leather armor.'' 5) \<and> armor p' = None
     \<and> map item_name (inventory p') = map item_name (inventory p)
     \<and> map item_name (inventory p) = [''Health Potion'']
     \<and> hp p' = hp p \<and> max_hp p' = max_hp p \<and> stamina p' = stamina p
     \<and> max_stamina p' = max_stamina p \<and> mana p' = mana p \<and> max_mana p' = max_mana p
     \<and> xp p' = xp p \<and> level p' = level p \<and> location p' = location p"
  by (simp add: new_game_player round_trip_def to_dict_def from_dict_def Player_def
      create_item_from_name_def items_def create_spell_from_name_def spells_table_def
      reequip_def next_or_None_def Let_def)

section \<open>Damage\<close>

text \<open>
  Claim C2. For an entity of the data model (defense not negative) or an amount that is
  not negative, \<^verbatim>\<open>take_damage\<close> returns the net damage
  \<open>max 0 (a - defense)\<close>, where \<open>a\<close> is the amount halved with floor division when the
  entity is defending and the raw amount otherwise; the new hp is the old hp less the net
  damage, floored at 0, so it is never negative; \<open>is_defending\<close> is false afterwards
  whatever it was before; every other field is unchanged; and amount 10 against
  defense 3 while defending gives net damage 2.
\<close>

theorem take_damage_spec:
  fixes self :: "'a entity_scheme"
  assumes "0 \<le> defense self \<or> 0 \<le> dmg"
  shows "snd (take_damage self dmg) =
           max 0 ((if is_defending self then dmg div 2 else dmg) - defense self)
       \<and> hp (fst (take_damage self dmg)) = max 0 (hp self - snd (take_damage self dmg))
       \<and> 0 \<le> hp (fst (take_damage self dmg))
       \<and> \<not> is_defending (fst (take_damage self dmg))
       \<and> fst (take_damage self dmg) =
           self\<lparr>hp := hp (fst (take_damage self dmg)), is_defending := False\<rparr>
       \<and> (is_defending self \<and> dmg = 10 \<and> defense self = 3
            \<longrightarrow> snd (take_damage self dmg) = 2)"
  using assms by (auto simp: take_damage_def Let_def max_def)

theorem take_damage_spec_witness:
  "snd (take_damage (Enemy ''Goblin'' 30 20 10 3 25\<lparr>is_defending := True\<rparr>) 10) = 2
   \<and> hp (fst (take_damage (Enemy ''Goblin'' 30 20 10 3 25\<lparr>is_defending := True\<rparr>) 10)) = 28
   \<and> \<not> is_defending (fst (take_damage (Enemy ''Goblin'' 30 20 10 3 25\<lparr>is_defending := True\<rparr>) 10))"
  using take_damage_spec [of "Enemy ''Goblin'' 30 20 10 3 25\<lparr>is_defending := True\<rparr>" 10]
  by (simp add: Enemy_def)

section \<open>Experience and equipment\<close>

text \<open>
  Claim C3. \<^verbatim>\<open>gain_xp\<close> adds the amount to xp and, exactly when the new xp reaches
  \<open>level * 100\<close>, levels up once: level is one more, xp is 0, max hp is 20 more, max
  stamina and max mana are 10 more, hp, stamina and mana are at the new maxima, attack is
  5 more and defense 2 more. Otherwise only xp changes. The level never grows by more
  than one in a call, however large the amount.
\<close>

theorem gain_xp_spec:
  "fst (gain_xp p a) =
     (if xp p + a \<ge> level p * 100
      then p\<lparr>max_hp := max_hp p + 20, hp := max_hp p + 20,
             max_stamina := max_stamina p + 10, stamina := max_stamina p + 10,
             attack := attack p + 5, defense := defense p + 2,
             xp := 0, level := level p + 1,
             max_mana := max_mana p + 10, mana := max_mana p + 10\<rparr>
      else p\<lparr>xp := xp p + a\<rparr>)
   \<and> level (fst (gain_xp p a)) \<le> level p + 1"
  by (simp add: gain_xp_def level_up_def Let_def)

theorem gain_xp_spec_witness:
  "fst (gain_xp (Player ''Hero'' 100 50 15 5) 100000) =
     (Player ''Hero'' 100 50 15 5)
       \<lparr>max_hp := 120, hp := 120, max_stamina := 60, stamina := 60,
        attack := 20, defense := 7, xp := 0, level := 2, max_mana := 40, mana := 40\<rparr>
   \<and> fst (gain_xp (Player ''Hero'' 100 50 15 5) 99) = (Player ''Hero'' 100 50 15 5)\<lparr>xp := 99\<rparr>"
  using gain_xp_spec [of "Player ''Hero'' 100 50 15 5" 100000]
    gain_xp_spec [of "Player ''Hero'' 100 50 15 5" 99]
  by (simp add: Player_def)

text \<open>
  Claim C4 as stated fails: a hero who wields the Iron Sword (attack 25), equips the
  Greatsword and then unequips it has attack 15, not the 25 from before.
\<close>

theorem equip_unequip_counterexample:
  "attack (unequip_if_equipped
            (equip_item (equip_item (Player ''Hero'' 100 50 15 5)
                           (WeaponItem (Weapon ''Iron Sword'' ''A basic sword.'' 10)))
               (WeaponItem (Weapon ''Greatsword'' ''A heavy two-handed sword.'' 18)))
            (WeaponItem (Weapon ''Greatsword'' ''A heavy two-handed sword.'' 18)))
   \<noteq> attack (equip_item (Player ''Hero'' 100 50 15 5)
                (WeaponItem (Weapon ''Iron Sword'' ''A basic sword.'' 10)))"
  by (simp add: unequip_if_equipped_def Player_def)

text \<open>
  Claim C4, amended. Equipping a weapon and then unequipping it with the slot cleanup of
  the drop action leaves the weapon slot empty and attack at its base, the attack from
  before without the bonus of the weapon that was equipped before; so attack is
  unchanged when no weapon was equipped before. Equipping weapon \<open>a\<close> and then weapon
  \<open>b\<close> leaves attack at the base plus the bonus of \<open>b\<close> only. The same holds of armor and
  defense. Equipping any item leaves the inventory as it is.
\<close>

theorem equip_spec:
  "attack (unequip_if_equipped (equip_item p (WeaponItem w)) (WeaponItem w)) = base_attack p
   \<and> weapon (unequip_if_equipped (equip_item p (WeaponItem w)) (WeaponItem w)) = None
   \<and> (weapon p = None \<longrightarrow>
        attack (unequip_if_equipped (equip_item p (WeaponItem w)) (WeaponItem w)) = attack p)
   \<and> attack (equip_item (equip_item p (WeaponItem a)) (WeaponItem b))
       = base_attack p + attack_bonus b
   \<and> weapon (equip_item (equip_item p (WeaponItem a)) (WeaponItem b)) = Some b
   \<and> defense (unequip_if_equipped (equip_item p (ArmorItem r)) (ArmorItem r)) = base_defense p
   \<and> armor (unequip_if_equipped (equip_item p (ArmorItem r)) (ArmorItem r)) = None
   \<and> (armor p = None \<longrightarrow>
        defense (unequip_if_equipped (equip_item p (ArmorItem r)) (ArmorItem r)) = defense p)
   \<and> defense (equip_item (equip_item p (ArmorItem x)) (ArmorItem y))
       = base_defense p + defense_bonus y
   \<and> armor (equip_item (equip_item p (ArmorItem x)) (ArmorItem y)) = Some y
   \<and> inventory (equip_item p item) = inventory p"
  by (cases item)
     (auto simp: unequip_if_equipped_def base_attack_def base_defense_def Let_def
           split: option.splits)

theorem equip_spec_witness:
  "weapon (Player ''Hero'' 100 50 15 5) = None
   \<and> attack (unequip_if_equipped
               (equip_item (Player ''Hero'' 100 50 15 5)
                  (WeaponItem (Weapon ''Iron Sword'' ''A basic sword.'' 10)))
               (WeaponItem (Weapon ''Iron Sword'' ''A basic sword.'' 10))) = 15
   \<and> armor (Player ''Hero'' 100 50 15 5) = None
   \<and> defense (unequip_if_equipped
               (equip_item (Player ''Hero'' 100 50 15 5)
                  (ArmorItem (Armor ''Leather Armor'' ''Simple leather armor.'' 5)))
               (ArmorItem (Armor ''Leather Armor'' ''Simple leather armor.'' 5))) = 5"
  using equip_spec [of "Player ''Hero'' 100 50 15 5"
      "Weapon ''Iron Sword'' ''A basic sword.'' 10" _ _
      "Armor ''Leather Armor'' ''Simple leather armor.'' 5"]
  by (simp add: Player_def)

section \<open>Quest stages\<close>




section \<open>Combat actions\<close>

text \<open>
  Claim C6 as stated fails: a successful flee calls the location view, which rolls for an
  encounter as on every other entry. The hero who flees from the wounded Wolf in the
  forest with both rolls low faces a fresh Goblin when \<^verbatim>\<open>flee\<close> returns.
\<close>

theorem flee_reroll_counterexample:
  "flee_roll low_rolls < 5 / 10
   \<and> map_option name (enemy_of (flee forest_duel low_rolls)) = Some ''Goblin''
   \<and> map_option hp (enemy_of (flee forest_duel low_rolls)) = Some 30
   \<and> enemy_of (flee forest_duel low_rolls) \<noteq> None"
  by (simp add: flee_def low_rolls_def forest_duel_def Game_def create_combat_buttons_def
      show_location_def the_player_def getitem_def world_def create_location_buttons_def
      log_line_def choice_def start_combat_def enemies_def Enemy_def Player_def enemy_of_def
      Let_def)

text \<open>
  Claim C6, amended. A flee attempt, for a player at a location of the world and with an
  enemy, always returns, and does exactly one of two things. When the roll is below 0.5
  the enemy is discarded and the location view is shown without an enemy turn: the
  player is untouched, and the view rolls for an encounter as usual, so a fresh enemy
  stands there exactly when the location has a roster and the encounter roll is below
  0.6. Otherwise the enemy takes its turn: the player takes the damage of its attack,
  the enemy and the combat buttons stay, and the game is over if the player died.
\<close>

theorem flee_outcome:
  assumes "player g = Some p" and "current_enemy g = Some e"
    and "map_of world (location p) = Some ld"
  shows "\<exists>g'. flee g d = Inr g' \<and>
     (if flee_roll d < 5 / 10 then
        player g' = Some p \<and> destroyed g' = destroyed g
        \<and> (current_enemy g' = None
             \<longleftrightarrow> \<not> (loc_enemies ld \<noteq> None \<and> encounter_roll d < 6 / 10))
        \<and> (case current_enemy g' of
              None \<Rightarrow>
                text_area g' = text_area g
                  @ [''You successfully fled the battle.'',
                     CHR 0x0A # ''--- '' @ loc_name ld @ '' ---'', loc_description ld]
            | Some e' \<Rightarrow>
                hp e' = max_hp e'
                \<and> text_area g' = text_area g
                  @ [''You successfully fled the battle.'',
                     CHR 0x0A # ''--- '' @ loc_name ld @ '' ---'', loc_description ld,
                     CHR 0x0A # ''A wild '' @ name e' @ '' appears!''])
      else
        player g' = Some (fst (take_damage p (attack e)))
        \<and> current_enemy g' = Some e \<and> buttons g' = buttons g
        \<and> destroyed g' = (destroyed g \<or> \<not> is_alive (fst (take_damage p (attack e))))
        \<and> text_area g' = text_area g
             @ [''You failed to flee!'',
                ''The '' @ name e @ '' attacks you for ''
                  @ str (snd (take_damage p (attack e))) @ '' damage.'']
             @ (if is_alive (fst (take_damage p (attack e))) then []
                else [CHR 0x0A # ''You have been defeated. Game Over.'']))"
proof (cases "flee_roll d < 5 / 10")
  case True
  let ?g2 = "(log_line g ''You successfully fled the battle.'')\<lparr>current_enemy := None\<rparr>"
  have p2: "player ?g2 = Some p" using assms(1) by (simp add: log_line_def)
  from show_location_result [OF p2 assms(3), of d]
  obtain g' where g': "show_location ?g2 d = Inr g'" "player g' = Some p"
    "destroyed g' = destroyed ?g2"
    "current_enemy g' = current_enemy ?g2
       \<or> (\<exists>roster. loc_enemies ld = Some roster \<and> encounter_roll d < 6 / 10)"
    "(\<exists>roster. loc_enemies ld = Some roster \<and> encounter_roll d < 6 / 10)
       \<longrightarrow> (\<exists>e'. current_enemy g' = Some e' \<and> hp e' = max_hp e'
              \<and> text_area g' = text_area ?g2
                   @ [CHR 0x0A # ''--- '' @ loc_name ld @ '' ---'', loc_description ld,
                      CHR 0x0A # ''A wild '' @ name e' @ '' appears!''])"
    "\<not> (\<exists>roster. loc_enemies ld = Some roster \<and> encounter_roll d < 6 / 10)
       \<longrightarrow> current_enemy g' = current_enemy ?g2
           \<and> text_area g' = text_area ?g2
                @ [CHR 0x0A # ''--- '' @ loc_name ld @ '' ---'', loc_description ld]"
    by blast
  have f: "flee g d = Inr g'" using True g'(1) by (simp add: flee_def Let_def)
  show ?thesis
  proof (cases "loc_enemies ld \<noteq> None \<and> encounter_roll d < 6 / 10")
    case True
    with g'(5) obtain e' where "current_enemy g' = Some e'" "hp e' = max_hp e'"
      "text_area g' = text_area ?g2
         @ [CHR 0x0A # ''--- '' @ loc_name ld @ '' ---'', loc_description ld,
            CHR 0x0A # ''A wild '' @ name e' @ '' appears!'']"
      by auto
    with f g'(2,3) True \<open>flee_roll d < 5 / 10\<close> show ?thesis
      by (simp add: log_line_def)
  next
    case False
    with g'(6) have "current_enemy g' = None"
      "text_area g' = text_area ?g2
         @ [CHR 0x0A # ''--- '' @ loc_name ld @ '' ---'', loc_description ld]"
      by auto
    with f g'(2,3) False \<open>flee_roll d < 5 / 10\<close> show ?thesis
      by (simp add: log_line_def)
  qed
next
  case False
  with assms(1,2) show ?thesis
    by (simp add: flee_def enemy_turn_def the_player_def the_enemy_def log_line_def
        game_over_def Let_def split: prod.splits)
qed

theorem flee_outcome_witness:
  "player forest_duel = Some ((Player ''Hero'' 100 50 15 5)\<lparr>location := ''forest''\<rparr>)
   \<and> current_enemy forest_duel = Some ((Enemy ''Wolf'' 40 30 15 3 35)\<lparr>hp := 12\<rparr>)
   \<and> map_of world ''forest'' \<noteq> None
   \<and> (\<exists>g'. flee forest_duel high_rolls = Inr g'
          \<and> map_option hp (player g') = Some 90
          \<and> map_option name (current_enemy g') = Some ''Wolf'')
   \<and> (\<exists>g'. flee forest_duel low_rolls = Inr g'
          \<and> map_option hp (player g') = Some 100)"
proof -
  have a: "player forest_duel = Some ((Player ''Hero'' 100 50 15 5)\<lparr>location := ''forest''\<rparr>)"
    by (simp add: forest_duel_def Game_def create_combat_buttons_def log_line_def)
  have b: "current_enemy forest_duel = Some ((Enemy ''Wolf'' 40 30 15 3 35)\<lparr>hp := 12\<rparr>)"
    by (simp add: forest_duel_def Game_def create_combat_buttons_def log_line_def)
  obtain ld where c: "map_of world (location ((Player ''Hero'' 100 50 15 5)\<lparr>location := ''forest''\<rparr>))
             = Some ld"
    by (simp add: world_def)
  have h: "\<not> flee_roll high_rolls < 5 / 10" by (simp add: high_rolls_def)
  have l: "flee_roll low_rolls < 5 / 10" by (simp add: low_rolls_def)
  from flee_outcome [OF a b c, of high_rolls] h
  have 1: "\<exists>g'. flee forest_duel high_rolls = Inr g'
          \<and> map_option hp (player g') = Some 90
          \<and> map_option name (current_enemy g') = Some ''Wolf''"
    by (auto simp: take_damage_def Player_def Enemy_def Let_def)
  from flee_outcome [OF a b c, of low_rolls] l
  have 2: "\<exists>g'. flee forest_duel low_rolls = Inr g' \<and> map_option hp (player g') = Some 100"
    by (auto simp: Player_def)
  from a b 1 2 show ?thesis by (simp add: world_def)
qed

text \<open>
  Claim C7, the code at its two cases. In a fight with a living enemy, choosing Magic with
  no spells opens a spell window without a button and writes no notice; choosing Use Item
  with no potion writes the notice and opens no window. Neither lets the enemy act.
\<close>

theorem no_choice_in_combat:
  assumes "player g = Some p" and "current_enemy g = Some e" and "is_alive e"
  shows "(spells p = [] \<longrightarrow>
            perform_action g ''Magic'' d = Inr (g\<lparr>windows := windows g @ [SpellWindow []]\<rparr>))
       \<and> ((\<forall>q. PotionItem q \<notin> set (inventory p)) \<longrightarrow>
            perform_action g ''Use Item'' d = Inr (log_line g ''You have no potions to use.''))"
  using assms
  by (simp add: perform_action_def show_spell_selection_def show_item_selection_def
      the_player_def no_potions Let_def)

theorem no_choice_in_combat_witness:
  "is_alive ((Enemy ''Wolf'' 40 30 15 3 35)\<lparr>hp := 12\<rparr>)
   \<and> spells ((Player ''Hero'' 100 50 15 5)\<lparr>location := ''forest''\<rparr>) = []
   \<and> inventory ((Player ''Hero'' 100 50 15 5)\<lparr>location := ''forest''\<rparr>) = []
   \<and> perform_action forest_duel ''Magic'' high_rolls
       = Inr (forest_duel\<lparr>windows := [SpellWindow []]\<rparr>)
   \<and> text_area (forest_duel\<lparr>windows := [SpellWindow []]\<rparr>) = text_area forest_duel
   \<and> perform_action forest_duel ''Use Item'' high_rolls
       = Inr (forest_duel\<lparr>text_area := text_area forest_duel @ [''You have no potions to use.'']\<rparr>)"
proof -
  have a: "player forest_duel = Some ((Player ''Hero'' 100 50 15 5)\<lparr>location := ''forest''\<rparr>)"
    by (simp add: forest_duel_def Game_def create_combat_buttons_def log_line_def)
  have b: "current_enemy forest_duel = Some ((Enemy ''Wolf'' 40 30 15 3 35)\<lparr>hp := 12\<rparr>)"
    by (simp add: forest_duel_def Game_def create_combat_buttons_def log_line_def)
  have c: "is_alive ((Enemy ''Wolf'' 40 30 15 3 35)\<lparr>hp := 12\<rparr>)"
    by (simp add: is_alive_def)
  have w: "windows forest_duel = []"
    by (simp add: forest_duel_def Game_def create_combat_buttons_def log_line_def)
  from no_choice_in_combat [OF a b c, of high_rolls] c w show ?thesis
    by (simp add: Player_def log_line_def)
qed

section \<open>Loading a damaged save\<close>

text \<open>
  Claim C8 as stated fails: loading a document without the key \<^verbatim>\<open>name\<close> does not return
  to the caller with a game that reports the failure. The \<^verbatim>\<open>KeyError\<close> of \<^verbatim>\<open>from_dict\<close>
  leaves \<^verbatim>\<open>load_game\<close> uncaught, and no game comes back.
\<close>

theorem load_failure_counterexample:
  "load_game (Game True) (Some nameless_doc) low_rolls = Inl (KeyError ''name'')
   \<and> player_of (load_game (Game True) (Some nameless_doc) low_rolls) = None"
  by (simp add: load_game_def from_dict_def nameless_doc_def player_of_def)

text \<open>
  Claim C8, amended. For every save document that lacks a key \<^verbatim>\<open>from_dict\<close> reads,
  \<^verbatim>\<open>from_dict\<close> raises \<^verbatim>\<open>KeyError\<close> for the first such key in its reading order, and
  \<^verbatim>\<open>load_game\<close> does not catch it: the exception leaves \<^verbatim>\<open>load_game\<close>, which installs no
  player and logs nothing.
\<close>

theorem missing_field_raises:
  assumes "first_missing data = Some k"
  shows "from_dict data = Inl (KeyError k) \<and> load_game g (Some data) d = Inl (KeyError k)"
proof -
  have "from_dict data = Inl (KeyError k)"
    using assms
    by (auto simp: first_missing_def from_dict_def split: if_splits)
  then show ?thesis by (simp add: load_game_def)
qed

theorem missing_field_raises_witness:
  "first_missing nameless_doc = Some ''name''
   \<and> from_dict nameless_doc = Inl (KeyError ''name'')"
  using missing_field_raises [of nameless_doc "''name''"]
  by (simp add: first_missing_def nameless_doc_def)

section \<open>The new game\<close>

text \<open>
  Claim C9 as stated fails: the player \<^verbatim>\<open>new_game\<close> produces has neither attack 15 nor
  defense 5, because the two pieces of equipment have added their bonuses.
\<close>

theorem new_game_attack_counterexample:
  "map_option attack (player_of (new_game (Game False) low_rolls)) \<noteq> Some 15
   \<and> map_option defense (player_of (new_game (Game False) low_rolls)) \<noteq> Some 5"
  by (simp add: new_game_player)

text \<open>
  Claim C9, amended. \<^verbatim>\<open>new_game\<close> produces a player with max hp 100, max stamina 50 and
  max mana 30, all full; base attack 15 and base defense 5, which with the equipped Iron
  Sword (+10) and Leather Armor (+5) make attack 25 and defense 10; one Health Potion as
  the whole inventory; and the Heal spell as the only spell.
\<close>

theorem new_game_loadout:
  "\<exists>p. player_of (new_game g d) = Some p
     \<and> max_hp p = 100 \<and> hp p = 100 \<and> max_stamina p = 50 \<and> stamina p = 50
     \<and> max_mana p = 30 \<and> mana p = 30
     \<and> base_attack p = 15 \<and> base_defense p = 5 \<and> attack p = 25 \<and> defense p = 10
     \<and> inventory p = [PotionItem (Potion ''Health Potion'' ''Restores 50 HP.'' ''heal'' 50)]
     \<and> weapon p = Some (Weapon ''Iron Sword'' ''A basic sword.'' 10)
     \<and> armor p = Some (Armor ''Leather Armor'' ''Simple leather armor.'' 5)
     \<and> spells p = [Some (Spell ''Heal'' ''A minor healing spell.'' 20 (- 40))]"
  by (simp add: new_game_player base_attack_def base_defense_def)

text \<open>
  Claim C10. After \<^verbatim>\<open>new_game\<close> the inventory holds exactly one item, the Health Potion;
  the Iron Sword and the Leather Armor are equipped, and neither is in the inventory, as
  an item or by name.
\<close>

theorem new_game_equipment_outside_inventory:
  "\<exists>p w a. player_of (new_game g d) = Some p
     \<and> inventory p = [PotionItem (Potion ''Health Potion'' ''Restores 50 HP.'' ''heal'' 50)]
     \<and> length (inventory p) = 1
     \<and> weapon p = Some w \<and> weapon_name w = ''Iron Sword''
     \<and> armor p = Some a \<and> armor_name a = ''Leather Armor''
     \<and> WeaponItem w \<notin> set (inventory p) \<and> ArmorItem a \<notin> set (inventory p)
     \<and> ''Iron Sword'' \<notin> set (map item_name (inventory p))
     \<and> ''Leather Armor'' \<notin> set (map item_name (inventory p))"
  by (simp add: new_game_player)

end
